theory Spec2Isabelle
  imports Complex_Main
begin

section \<open>The Price Is Right notebook: winnings scorer and asymmetric losses\<close>

text \<open>
  The notebook \<^verbatim>\<open>custom_loss/notebooks/Price is Right\<close> defines a class
  \<^verbatim>\<open>price_is_right\<close> that scores predictions against true prices, and four
  numpy functions handed to a gradient-boosting library as objective and evaluation
  callbacks. Floating-point numbers are modelled as \<^typ>\<open>real\<close>: rounding and overflow are
  outside this development. The values a float takes where no real exists (the quotient by
  zero, the mean of nothing) are kept as a type of their own.
\<close>

subsection \<open>Float results that are not real numbers\<close>

datatype fval = Fin real | PInf | NInf | NaN

text \<open>Float division \<^verbatim>\<open>p / t\<close> as numpy and pandas compute it: no exception, an infinity
  or NaN when the divisor is zero.\<close>

definition fdiv :: "real \<Rightarrow> real \<Rightarrow> fval" where
  "fdiv p t = (if t \<noteq> 0 then Fin (p / t)
               else if 0 < p then PInf
               else if p < 0 then NInf
               else NaN)"

fun fadd :: "fval \<Rightarrow> fval \<Rightarrow> fval" where
  "fadd (Fin a) (Fin b) = Fin (a + b)"
| "fadd NaN _ = NaN"
| "fadd _ NaN = NaN"
| "fadd PInf NInf = NaN"
| "fadd NInf PInf = NaN"
| "fadd PInf _ = PInf"
| "fadd _ PInf = PInf"
| "fadd NInf _ = NInf"
| "fadd _ NInf = NInf"

fun is_nan :: "fval \<Rightarrow> bool" where
  "is_nan NaN = True"
| "is_nan _ = False"

text \<open>\<^verbatim>\<open>Series.sum()\<close> of a float column: pandas skips NaN entries (\<^verbatim>\<open>skipna=True\<close> is the
  default) and adds the rest, starting from zero.\<close>

definition sum_skipna :: "fval list \<Rightarrow> fval" where
  "sum_skipna xs = foldr fadd (filter (\<lambda>v. \<not> is_nan v) xs) (Fin 0)"

text \<open>\<^verbatim>\<open>np.mean\<close> of a one-dimensional array: NaN (with a warning, no exception) when the
  array is empty.\<close>

definition np_mean :: "real list \<Rightarrow> fval" where
  "np_mean xs = (if xs = [] then NaN else Fin (sum_list xs / real (length xs)))"

subsection \<open>The scorer: class \<^verbatim>\<open>price_is_right\<close>\<close>

text \<open>
  \<^verbatim>\<open>
  class price_is_right:
      def __init__(self, truth, preds):
          self.truths = truth
          self.preds = preds

      def calculate_winnings(self):
          winning_df = pd.DataFrame(zip(self.truths, self.preds), columns=['truth', 'pred'])
          winning_df['winnings'] = 0
          winning_df['winning_percent'] = 0
          winning_df.loc[winning_df['pred'] <= winning_df['truth'], 'winnings'] = winning_df['pred']
          winning_df.loc[winning_df['pred'] <= winning_df['truth'], 'winning_percent'] = winning_df['pred']/winning_df['truth']
          self.winnings = winning_df['winnings'].sum()
          self.winning_percent = winning_df['winning_percent'].sum()
          self.overpredicted = winning_df[winning_df['winnings']==0].shape[0]
  \<close>
  The object is a record of its two constructor attributes; \<^verbatim>\<open>calculate_winnings\<close>
  returns the object extended by the three attributes it sets. The data frame is a record
  of its four columns, each a list with one entry per row.
\<close>

record price_is_right =
  truths :: "real list"
  preds :: "real list"

record scored = price_is_right +
  winnings :: real
  winning_percent :: fval
  overpredicted :: nat

record dataframe =
  df_truth :: "real list"
  df_pred :: "real list"
  df_winnings :: "real list"
  df_winning_percent :: "fval list"

text \<open>\<^verbatim>\<open>df.loc[mask, col] = values\<close>: the rows where the mask holds take the entry of
  \<^verbatim>\<open>values\<close> at the same row, the others keep what the column had.\<close>

definition loc_assign :: "bool list \<Rightarrow> 'a list \<Rightarrow> 'a list \<Rightarrow> 'a list" where
  "loc_assign sel col vals = map (\<lambda>(m, c, v). if m then v else c) (zip sel (zip col vals))"

text \<open>The data frame after the four assignment statements. \<^verbatim>\<open>zip\<close> stops at the shorter
  of its two arguments.\<close>

definition winning_df :: "price_is_right \<Rightarrow> dataframe" where
  "winning_df self =
    (let rows = zip (truths self) (preds self);
         truth = map fst rows;
         pred = map snd rows;
         n = length rows;
         is_win = map2 (\<lambda>p t. p \<le> t) pred truth
     in \<lparr>df_truth = truth,
         df_pred = pred,
         df_winnings = loc_assign is_win (replicate n 0) pred,
         df_winning_percent = loc_assign is_win (replicate n (Fin 0)) (map2 fdiv pred truth)\<rparr>)"

definition calculate_winnings :: "price_is_right \<Rightarrow> scored" where
  "calculate_winnings self =
    (let df = winning_df self
     in \<lparr>truths = truths self,
         preds = preds self,
         winnings = sum_list (df_winnings df),
         winning_percent = sum_skipna (df_winning_percent df),
         overpredicted = length (filter (\<lambda>w. w = 0) (df_winnings df))\<rparr>)"

text \<open>\<^verbatim>\<open>print_results\<close> prints the over-prediction count over \<^verbatim>\<open>len(self.preds)\<close>, then
  the normalized and the total winnings; the model returns the four printed quantities.\<close>

definition print_results :: "price_is_right \<Rightarrow> nat \<times> nat \<times> fval \<times> real" where
  "print_results self =
    (let s = calculate_winnings self
     in (overpredicted s, length (preds self), winning_percent s, winnings s))"

subsection \<open>numpy arrays\<close>

text \<open>
  The booster calls the loss functions with two one-dimensional numpy arrays. An
  elementwise operation on shapes \<open>(n,)\<close> and \<open>(m,)\<close> follows numpy's broadcasting rule:
  equal lengths work elementwise, a length of one is stretched to the other length, and
  anything else raises \<^verbatim>\<open>ValueError\<close>.
\<close>

datatype error = ValueError

definition broadcast_shapes :: "nat \<Rightarrow> nat \<Rightarrow> error + nat" where
  "broadcast_shapes n m =
    (if n = m then Inr n
     else if n = 1 then Inr m
     else if m = 1 then Inr n
     else Inl ValueError)"

definition broadcast_to :: "nat \<Rightarrow> 'a list \<Rightarrow> 'a list" where
  "broadcast_to k xs = (case xs of [x] \<Rightarrow> replicate k x | _ \<Rightarrow> xs)"

definition np_sub :: "real list \<Rightarrow> real list \<Rightarrow> error + real list" where
  "np_sub a b =
    (case broadcast_shapes (length a) (length b) of
       Inl e \<Rightarrow> Inl e
     | Inr k \<Rightarrow> Inr (map2 (\<lambda>x y. x - y) (broadcast_to k a) (broadcast_to k b)))"

text \<open>\<^verbatim>\<open>np.where(cond, x, y)\<close> on three arrays of one length.\<close>

definition np_where :: "bool list \<Rightarrow> 'a list \<Rightarrow> 'a list \<Rightarrow> 'a list" where
  "np_where c x y = map (\<lambda>(b, u, v). if b then u else v) (zip c (zip x y))"

subsection \<open>The loss functions\<close>

text \<open>
  \<^verbatim>\<open>
  penalty = 3
  def overprediction_penalty_objective(truth, pred):
      err = (truth - pred).astype("float")
      grad = np.where(err<0, -2*penalty*err, -2*err)
      hess = np.where(err<0, 2*penalty, 2)
      return grad, hess

  def overprediction_penalty_squared(truth, pred):
      err = (truth - pred).astype("float")
      loss = np.where(err<0, (err**2)*penalty, err**2)
      return "overprediction_squared_penalty", np.mean(loss), False

  def overprediction_penalty_absolute(truth, pred):
      err = (truth - pred).astype("float")
      loss = np.where(err<0, abs(err)*penalty, abs(err))
      return "overprediction_squared_penalty", np.mean(loss), False

  def overprediction_penalty_custom(truth, pred):
      err = (truth - pred).astype("float")
      loss = np.where(err<0, -pred, 0)
      return "custom_penalty", np.mean(loss), False
  \<close>
  The module-level variable \<^verbatim>\<open>penalty\<close> (rebound to 3, 5, 10 and 12 between the
  experiment batches) is the first argument of the model. Scalars given to
  \<^verbatim>\<open>np.where\<close> are stretched to the length of \<^verbatim>\<open>err\<close>; so is \<^verbatim>\<open>-pred\<close> when
  \<^verbatim>\<open>pred\<close> has length one. The \<^verbatim>\<open>loss\<close> array of each evaluation function is a
  definition of its own.
\<close>

definition overprediction_penalty_objective ::
    "real \<Rightarrow> real list \<Rightarrow> real list \<Rightarrow> error + (real list \<times> real list)" where
  "overprediction_penalty_objective penalty truth pred =
    (case np_sub truth pred of
       Inl e \<Rightarrow> Inl e
     | Inr err \<Rightarrow>
         (let grad = np_where (map (\<lambda>e. e < 0) err)
                       (map (\<lambda>e. - 2 * penalty * e) err) (map (\<lambda>e. - 2 * e) err);
              hess = np_where (map (\<lambda>e. e < 0) err)
                       (replicate (length err) (2 * penalty)) (replicate (length err) 2)
          in Inr (grad, hess)))"

definition squared_loss :: "real \<Rightarrow> real list \<Rightarrow> real list" where
  "squared_loss penalty err =
     np_where (map (\<lambda>e. e < 0) err) (map (\<lambda>e. e\<^sup>2 * penalty) err) (map (\<lambda>e. e\<^sup>2) err)"

definition overprediction_penalty_squared ::
    "real \<Rightarrow> real list \<Rightarrow> real list \<Rightarrow> error + (string \<times> fval \<times> bool)" where
  "overprediction_penalty_squared penalty truth pred =
    (case np_sub truth pred of
       Inl e \<Rightarrow> Inl e
     | Inr err \<Rightarrow>
         Inr (''overprediction_squared_penalty'', np_mean (squared_loss penalty err), False))"

definition absolute_loss :: "real \<Rightarrow> real list \<Rightarrow> real list" where
  "absolute_loss penalty err =
     np_where (map (\<lambda>e. e < 0) err) (map (\<lambda>e. \<bar>e\<bar> * penalty) err) (map (\<lambda>e. \<bar>e\<bar>) err)"

definition overprediction_penalty_absolute ::
    "real \<Rightarrow> real list \<Rightarrow> real list \<Rightarrow> error + (string \<times> fval \<times> bool)" where
  "overprediction_penalty_absolute penalty truth pred =
    (case np_sub truth pred of
       Inl e \<Rightarrow> Inl e
     | Inr err \<Rightarrow>
         Inr (''overprediction_squared_penalty'', np_mean (absolute_loss penalty err), False))"

definition custom_loss :: "real list \<Rightarrow> real list \<Rightarrow> real list" where
  "custom_loss err pred =
     np_where (map (\<lambda>e. e < 0) err)
       (broadcast_to (length err) (map uminus pred)) (replicate (length err) 0)"

definition overprediction_penalty_custom ::
    "real \<Rightarrow> real list \<Rightarrow> real list \<Rightarrow> error + (string \<times> fval \<times> bool)" where
  "overprediction_penalty_custom penalty truth pred =
    (case np_sub truth pred of
       Inl e \<Rightarrow> Inl e
     | Inr err \<Rightarrow> Inr (''custom_penalty'', np_mean (custom_loss err pred), False))"

section \<open>Helper lemmas\<close>

lemma loc_assign_zip:
  "loc_assign (map2 c (map snd rows) (map fst rows)) (replicate (length rows) d)
     (map2 f (map snd rows) (map fst rows))
   = map (\<lambda>(t, p). if c p t then f p t else d) rows"
  by (induction rows) (auto simp: loc_assign_def)

lemma loc_assign_zip_id:
  "loc_assign (map2 c (map snd rows) (map fst rows)) (replicate (length rows) d) (map snd rows)
   = map (\<lambda>(t, p). if c p t then p else d) rows"
  by (induction rows) (auto simp: loc_assign_def)

lemma df_winnings_eq:
  "df_winnings (winning_df \<lparr>truths = ts, preds = ps\<rparr>)
   = map (\<lambda>(t, p). if p \<le> t then p else 0) (zip ts ps)"
  by (simp add: winning_df_def Let_def loc_assign_zip_id)

lemma df_winning_percent_eq:
  "df_winning_percent (winning_df \<lparr>truths = ts, preds = ps\<rparr>)
   = map (\<lambda>(t, p). if p \<le> t then fdiv p t else Fin 0) (zip ts ps)"
  by (simp add: winning_df_def Let_def loc_assign_zip)

lemma winnings_rows:
  "map (\<lambda>(t, p). if p \<le> t then p else 0) rows
   = map (\<lambda>(t, p). if p > t then 0 else p) (rows :: (real \<times> real) list)"
  by (induction rows) auto

lemma percent_rows:
  "\<forall>(t, p) \<in> set rows. t \<noteq> 0 \<Longrightarrow>
   map (\<lambda>(t, p). if p \<le> t then fdiv p t else Fin 0) rows
   = map (\<lambda>(t, p). Fin (if p > t then 0 else p / t)) rows"
  by (induction rows) (auto simp: fdiv_def)

lemma sum_skipna_rows:
  "sum_skipna (map (\<lambda>(t, p). Fin (f t p)) rows) = Fin (sum_list (map (\<lambda>(t, p). f t p) rows))"
  by (induction rows) (auto simp: sum_skipna_def)

lemma zero_winnings_rows:
  "length (filter (\<lambda>w. w = 0) (map (\<lambda>(t, p). if p \<le> t then p else 0) rows))
   = length (filter (\<lambda>(t, p). p > t \<or> p = 0) (rows :: (real \<times> real) list))"
  by (induction rows) (auto split: if_splits)

lemma nonneg_rows:
  "\<forall>(t, p) \<in> set rows. p \<le> t \<longrightarrow> 0 \<le> p \<Longrightarrow>
   \<forall>w \<in> set (map (\<lambda>(t, p). if p \<le> t then p else 0) rows). (0::real) \<le> w"
  by (induction rows) auto

lemma sum_rows_update:
  "i < length ts \<Longrightarrow> i < length ps \<Longrightarrow> ps ! i < ts ! i \<Longrightarrow> p' \<le> ts ! i \<Longrightarrow>
   sum_list (map (\<lambda>(t, p). if p \<le> t then p else 0) (zip ts (ps[i := p'])))
   = sum_list (map (\<lambda>(t, p). if p \<le> t then p else (0::real)) (zip ts ps)) + (p' - ps ! i)"
proof (induction ts arbitrary: ps i)
  case Nil
  then show ?case by simp
next
  case (Cons t ts)
  then obtain q qs where ps: "ps = q # qs" by (cases ps) auto
  show ?case
  proof (cases i)
    case 0
    with Cons.prems ps show ?thesis by simp
  next
    case (Suc j)
    with Cons.prems ps have "j < length ts" "j < length qs" "qs ! j < ts ! j" "p' \<le> ts ! j"
      by simp_all
    from Cons.IH [OF this] Suc ps show ?thesis by simp
  qed
qed

lemma broadcast_to_same: "length xs = k \<Longrightarrow> broadcast_to k xs = xs"
  by (auto simp: broadcast_to_def split: list.splits)

lemma np_sub_same:
  "length a = length b \<Longrightarrow> np_sub a b = Inr (map2 (\<lambda>x y. x - y) a b)"
  by (simp add: np_sub_def broadcast_shapes_def broadcast_to_same)

lemma np_sub_Inl_iff:
  "np_sub a b = Inl ValueError
   \<longleftrightarrow> length a \<noteq> length b \<and> length a \<noteq> 1 \<and> length b \<noteq> 1"
  by (auto simp: np_sub_def broadcast_shapes_def)

lemma np_where_maps:
  "np_where (map c xs) (map f xs) (map g xs) = map (\<lambda>x. if c x then f x else g x) xs"
  by (induction xs) (auto simp: np_where_def)

lemma np_where_consts:
  "np_where (map c xs) (replicate (length xs) a) (replicate (length xs) b)
   = map (\<lambda>x. if c x then a else b) xs"
  by (induction xs) (auto simp: np_where_def)

lemma squared_loss_eq:
  "squared_loss P (map2 (\<lambda>x y. x - y) ts ps)
   = map2 (\<lambda>t p. if t - p < 0 then (t - p)\<^sup>2 * P else (t - p)\<^sup>2) ts ps"
  by (simp add: squared_loss_def np_where_maps case_prod_unfold)

lemma absolute_loss_eq:
  "absolute_loss P (map2 (\<lambda>x y. x - y) ts ps)
   = map2 (\<lambda>t p. if t - p < 0 then \<bar>t - p\<bar> * P else \<bar>t - p\<bar>) ts ps"
  by (simp add: absolute_loss_def np_where_maps case_prod_unfold)

lemma custom_where_eq:
  "length ts = length ps \<Longrightarrow>
   np_where (map (\<lambda>e. e < 0) (map2 (\<lambda>x y. x - y) ts ps)) (map uminus ps)
     (replicate (length ps) (0::real))
   = map2 (\<lambda>t p. if t - p < 0 then - p else 0) ts ps"
  by (induction ts ps rule: list_induct2) (auto simp: np_where_def)

lemma custom_loss_eq:
  assumes "length ts = length ps"
  shows "custom_loss (map2 (\<lambda>x y. x - y) ts ps) ps
         = map2 (\<lambda>t p. if t - p < 0 then - p else 0) ts ps"
proof -
  have "custom_loss (map2 (\<lambda>x y. x - y) ts ps) ps
        = np_where (map (\<lambda>e. e < 0) (map2 (\<lambda>x y. x - y) ts ps)) (map uminus ps)
            (replicate (length ps) 0)"
    using assms by (simp add: custom_loss_def broadcast_to_same)
  then show ?thesis by (simp only: custom_where_eq [OF assms])
qed

lemma objective_grad_eq:
  "np_where (map (\<lambda>e. e < 0) err) (map (\<lambda>e. - 2 * P * e) err) (map (\<lambda>e. - 2 * e) err)
   = map (\<lambda>e. if e < 0 then - 2 * P * e else - 2 * e) (err :: real list)"
  by (rule np_where_maps)

lemma objective_hess_eq:
  "np_where (map (\<lambda>e. e < 0) err) (replicate (length err) (2 * P)) (replicate (length err) 2)
   = map (\<lambda>e. if e < 0 then 2 * P else 2) (err :: real list)"
  by (rule np_where_consts)

lemma objective_of_err:
  "np_sub truth pred = Inr err \<Longrightarrow>
   overprediction_penalty_objective P truth pred
   = Inr (map (\<lambda>e. if e < 0 then - 2 * P * e else - 2 * e) err,
          map (\<lambda>e. if e < 0 then 2 * P else 2) err)"
  unfolding overprediction_penalty_objective_def Let_def
  by (simp only: sum.case objective_grad_eq objective_hess_eq)

lemma squared_loss_map:
  "squared_loss P err = map (\<lambda>e. if e < 0 then e\<^sup>2 * P else e\<^sup>2) err"
  unfolding squared_loss_def by (rule np_where_maps)

lemma absolute_loss_map:
  "absolute_loss P err = map (\<lambda>e. if e < 0 then \<bar>e\<bar> * P else \<bar>e\<bar>) err"
  unfolding absolute_loss_def by (rule np_where_maps)

lemma sum_list_map_le:
  "(\<And>x. x \<in> set xs \<Longrightarrow> f x \<le> g x) \<Longrightarrow> sum_list (map f xs) \<le> (sum_list (map g xs) :: real)"
  by (induction xs) (auto intro: add_mono)

lemma sum_list_map_less:
  "(\<And>x. x \<in> set xs \<Longrightarrow> f x \<le> g x) \<Longrightarrow> i < length xs \<Longrightarrow> f (xs ! i) < g (xs ! i) \<Longrightarrow>
   sum_list (map f xs) < (sum_list (map g xs) :: real)"
proof (induction xs arbitrary: i)
  case Nil
  then show ?case by simp
next
  case (Cons x xs)
  show ?case
  proof (cases i)
    case 0
    with Cons.prems have "f x < g x" by simp
    moreover have "sum_list (map f xs) \<le> sum_list (map g xs)"
      using Cons.prems(1) by (intro sum_list_map_le) simp
    ultimately show ?thesis by simp
  next
    case (Suc j)
    with Cons.prems have "j < length xs" "f (xs ! j) < g (xs ! j)" by simp_all
    with Cons.IH [of j] Cons.prems(1) have "sum_list (map f xs) < sum_list (map g xs)" by simp
    moreover have "f x \<le> g x" using Cons.prems(1) by simp
    ultimately show ?thesis by simp
  qed
qed

lemma squared_pair_strict:
  "P1 < P2 \<Longrightarrow> e < 0 \<Longrightarrow> e\<^sup>2 * P1 < (e::real)\<^sup>2 * P2"
  by (simp add: mult_strict_left_mono)

lemma absolute_pair_strict:
  "P1 < P2 \<Longrightarrow> e < 0 \<Longrightarrow> \<bar>e\<bar> * P1 < \<bar>e::real\<bar> * P2"
  by (simp add: mult_strict_left_mono)

lemma gradient_pair_strict:
  assumes "0 < P1" and "P1 < P2" and "e < 0"
  shows "\<bar>- 2 * P1 * e\<bar> < \<bar>- 2 * P2 * (e::real)\<bar>"
proof -
  have "\<bar>- 2 * P1 * e\<bar> = 2 * P1 * \<bar>e\<bar>" using assms by (simp add: abs_mult)
  moreover have "\<bar>- 2 * P2 * e\<bar> = 2 * P2 * \<bar>e\<bar>" using assms by (simp add: abs_mult)
  moreover have "2 * P1 * \<bar>e\<bar> < 2 * P2 * \<bar>e\<bar>" using assms by simp
  ultimately show ?thesis by simp
qed

lemma take_min_zip:
  "zip (take (min (length ts) (length ps)) ts) (take (min (length ts) (length ps)) ps) = zip ts ps"
proof -
  have "zip (take (min (length ts) (length ps)) ts) (take (min (length ts) (length ps)) ps)
        = take (min (length ts) (length ps)) (zip ts ps)"
    by (simp add: take_zip)
  then show ?thesis by simp
qed

lemma winning_df_take:
  "winning_df \<lparr>truths = take (min (length ts) (length ps)) ts,
               preds = take (min (length ts) (length ps)) ps\<rparr>
   = winning_df \<lparr>truths = ts, preds = ps\<rparr>"
  unfolding winning_df_def by (simp only: price_is_right.simps take_min_zip)

lemma objective_Inl_iff:
  "overprediction_penalty_objective P truth pred = Inl ValueError
   \<longleftrightarrow> np_sub truth pred = Inl ValueError"
  by (cases "np_sub truth pred") (auto simp: overprediction_penalty_objective_def Let_def)

lemma squared_Inl_iff:
  "overprediction_penalty_squared P truth pred = Inl ValueError
   \<longleftrightarrow> np_sub truth pred = Inl ValueError"
  by (cases "np_sub truth pred") (auto simp: overprediction_penalty_squared_def)

lemma absolute_Inl_iff:
  "overprediction_penalty_absolute P truth pred = Inl ValueError
   \<longleftrightarrow> np_sub truth pred = Inl ValueError"
  by (cases "np_sub truth pred") (auto simp: overprediction_penalty_absolute_def)

lemma custom_Inl_iff:
  "overprediction_penalty_custom P truth pred = Inl ValueError
   \<longleftrightarrow> np_sub truth pred = Inl ValueError"
  by (cases "np_sub truth pred") (auto simp: overprediction_penalty_custom_def)

lemma map2_replicate_right:
  "map2 f xs (replicate (length xs) y) = map (\<lambda>x. f x y) xs"
  by (induction xs) auto

lemma map2_replicate_left:
  "map2 f (replicate (length ys) x) ys = map (\<lambda>y. f x y) ys"
  by (induction ys) auto

lemma broadcast_to_single: "broadcast_to k [x] = replicate k x"
  by (simp add: broadcast_to_def)

lemma np_sub_replicate_right:
  "np_sub truth (replicate (length truth) p) = Inr (map (\<lambda>t. t - p) truth)"
  by (simp add: np_sub_same map2_replicate_right)

lemma np_sub_replicate_left:
  "np_sub (replicate (length pred) t) pred = Inr (map (\<lambda>p. t - p) pred)"
  by (simp add: np_sub_same map2_replicate_left)

lemma np_sub_single_right:
  "np_sub truth [p] = Inr (map (\<lambda>t. t - p) truth)"
proof (cases "length truth = 1")
  case True
  then obtain t where "truth = [t]" by (cases truth) auto
  then show ?thesis
    by (simp add: np_sub_def broadcast_shapes_def broadcast_to_single)
next
  case False
  then have "np_sub truth [p] = Inr (map2 (\<lambda>x y. x - y) truth (replicate (length truth) p))"
    by (simp add: np_sub_def broadcast_shapes_def broadcast_to_single broadcast_to_same)
  then show ?thesis by (simp only: map2_replicate_right)
qed

lemma np_sub_single_left:
  "np_sub [t] pred = Inr (map (\<lambda>p. t - p) pred)"
proof (cases "length pred = 1")
  case True
  then obtain p where "pred = [p]" by (cases pred) auto
  then show ?thesis
    by (simp add: np_sub_def broadcast_shapes_def broadcast_to_single)
next
  case False
  then have "np_sub [t] pred = Inr (map2 (\<lambda>x y. x - y) (replicate (length pred) t) pred)"
    by (auto simp: np_sub_def broadcast_shapes_def broadcast_to_single broadcast_to_same)
  then show ?thesis by (simp only: map2_replicate_left)
qed

lemma squared_of_err:
  "np_sub truth pred = Inr err \<Longrightarrow>
   overprediction_penalty_squared P truth pred
   = Inr (''overprediction_squared_penalty'',
          np_mean (map (\<lambda>e. if e < 0 then e\<^sup>2 * P else e\<^sup>2) err), False)"
  unfolding overprediction_penalty_squared_def by (simp only: sum.case squared_loss_map)

lemma absolute_of_err:
  "np_sub truth pred = Inr err \<Longrightarrow>
   overprediction_penalty_absolute P truth pred
   = Inr (''overprediction_squared_penalty'',
          np_mean (map (\<lambda>e. if e < 0 then \<bar>e\<bar> * P else \<bar>e\<bar>) err), False)"
  unfolding overprediction_penalty_absolute_def by (simp only: sum.case absolute_loss_map)

lemma custom_of_err:
  "np_sub truth pred = Inr err \<Longrightarrow>
   overprediction_penalty_custom P truth pred
   = Inr (''custom_penalty'', np_mean (custom_loss err pred), False)"
  unfolding overprediction_penalty_custom_def by (simp only: sum.case)

lemma custom_loss_single:
  "custom_loss err [p] = map (\<lambda>e. if e < 0 then - p else 0) err"
  unfolding custom_loss_def
  by (simp only: list.map broadcast_to_single np_where_consts)

lemma custom_loss_replicate:
  "custom_loss (map f truth) (replicate (length truth) p)
   = map (\<lambda>e. if e < 0 then - p else 0) (map f truth)"
proof -
  have "broadcast_to (length (map f truth)) (map uminus (replicate (length truth) p))
        = replicate (length (map f truth)) (- p)"
    by (simp add: broadcast_to_same)
  then show ?thesis
    unfolding custom_loss_def by (simp only: np_where_consts)
qed

lemma custom_loss_same_length:
  "custom_loss (map (\<lambda>p. t - p) pred) pred = map (\<lambda>p. if t - p < 0 then - p else 0) pred"
proof -
  have "broadcast_to (length (map (\<lambda>p. t - p) pred)) (map uminus pred) = map uminus pred"
    by (simp add: broadcast_to_same)
  moreover have "np_where (map (\<lambda>e. e < 0) (map (\<lambda>p. t - p) pred)) (map uminus pred)
                   (replicate (length (map (\<lambda>p. t - p) pred)) 0)
                 = map (\<lambda>p. if t - p < 0 then - p else 0) pred"
    by (induction pred) (auto simp: np_where_def)
  ultimately show ?thesis unfolding custom_loss_def by (simp only:)
qed

section \<open>The scorer\<close>

text \<open>
  Claim C1. Every scored pair whose prediction is strictly above its truth contributes 0 to
  the total winnings and 0 to the normalized winnings; every other pair (prediction at most
  the truth, equality included) contributes its prediction to the total winnings and, when
  no scored truth is zero, the quotient of prediction by truth to the normalized winnings.
  The totals are the sums of these contributions. For truths \<open>[10]\<close> and predictions
  \<open>[10]\<close> the total winnings are 10.
\<close>

theorem calculate_winnings_contributions:
  "df_winnings (winning_df \<lparr>truths = ts, preds = ps\<rparr>)
     = map (\<lambda>(t, p). if p > t then 0 else p) (zip ts ps)
   \<and> winnings (calculate_winnings \<lparr>truths = ts, preds = ps\<rparr>)
     = sum_list (map (\<lambda>(t, p). if p > t then 0 else p) (zip ts ps))
   \<and> ((\<forall>(t, p) \<in> set (zip ts ps). t \<noteq> 0) \<longrightarrow>
        df_winning_percent (winning_df \<lparr>truths = ts, preds = ps\<rparr>)
          = map (\<lambda>(t, p). Fin (if p > t then 0 else p / t)) (zip ts ps)
      \<and> winning_percent (calculate_winnings \<lparr>truths = ts, preds = ps\<rparr>)
          = Fin (sum_list (map (\<lambda>(t, p). if p > t then 0 else p / t) (zip ts ps))))
   \<and> winnings (calculate_winnings \<lparr>truths = [10], preds = [10]\<rparr>) = 10"
proof -
  have col: "df_winnings (winning_df \<lparr>truths = ts, preds = ps\<rparr>)
     = map (\<lambda>(t, p). if p > t then 0 else p) (zip ts ps)"
    unfolding df_winnings_eq by (rule winnings_rows)
  have tot: "winnings (calculate_winnings \<lparr>truths = ts, preds = ps\<rparr>)
     = sum_list (map (\<lambda>(t, p). if p > t then 0 else p) (zip ts ps))"
    unfolding calculate_winnings_def Let_def by (simp only: scored.simps col)
  have pct: "df_winning_percent (winning_df \<lparr>truths = ts, preds = ps\<rparr>)
          = map (\<lambda>(t, p). Fin (if p > t then 0 else p / t)) (zip ts ps)
      \<and> winning_percent (calculate_winnings \<lparr>truths = ts, preds = ps\<rparr>)
          = Fin (sum_list (map (\<lambda>(t, p). if p > t then 0 else p / t) (zip ts ps)))"
    if nz: "\<forall>(t, p) \<in> set (zip ts ps). t \<noteq> 0"
  proof -
    have c: "df_winning_percent (winning_df \<lparr>truths = ts, preds = ps\<rparr>)
          = map (\<lambda>(t, p). Fin (if p > t then 0 else p / t)) (zip ts ps)"
      unfolding df_winning_percent_eq by (rule percent_rows [OF nz])
    have "winning_percent (calculate_winnings \<lparr>truths = ts, preds = ps\<rparr>)
          = sum_skipna (map (\<lambda>(t, p). Fin (if p > t then 0 else p / t)) (zip ts ps))"
      unfolding calculate_winnings_def Let_def by (simp only: scored.simps c)
    then show ?thesis using c by (simp only: sum_skipna_rows)
  qed
  have ex: "winnings (calculate_winnings \<lparr>truths = [10], preds = [10]\<rparr>) = 10"
    by (simp add: calculate_winnings_def winning_df_def loc_assign_def Let_def)
  from col tot pct ex show ?thesis by blast
qed

theorem calculate_winnings_contributions_witness:
  "df_winnings (winning_df \<lparr>truths = [10, 10, 4], preds = [7, 11, 4]\<rparr>) = [7, 0, 4]
   \<and> winnings (calculate_winnings \<lparr>truths = [10, 10, 4], preds = [7, 11, 4]\<rparr>) = 11
   \<and> df_winning_percent (winning_df \<lparr>truths = [10, 10, 4], preds = [7, 11, 4]\<rparr>)
       = [Fin (7 / 10), Fin 0, Fin 1]
   \<and> winning_percent (calculate_winnings \<lparr>truths = [10, 10, 4], preds = [7, 11, 4]\<rparr>)
       = Fin (17 / 10)"
  using calculate_winnings_contributions [of "[10, 10, 4]" "[7, 11, 4]"] by simp

text \<open>
  Claim C2. The claim: the over-prediction count equals the number of pairs whose
  prediction is strictly above the truth. The method counts the rows whose winnings are
  zero, so a pair with prediction 0 (not above its truth) is counted as well: the count is
  the number of pairs with prediction above the truth or prediction equal to 0. For truths
  \<open>[10]\<close> and predictions \<open>[0]\<close> the count is 1 while no prediction is above its
  truth. The scenario of the claim holds: truths \<open>[10, 10]\<close>, predictions \<open>[7, 11]\<close>
  give count 1, winnings 7 and normalized winnings 0.7.
\<close>

theorem overpredicted_counts_zero_winnings:
  "overpredicted (calculate_winnings \<lparr>truths = ts, preds = ps\<rparr>)
     = length (filter (\<lambda>(t, p). p > t \<or> p = 0) (zip ts ps))
   \<and> overpredicted (calculate_winnings \<lparr>truths = [10], preds = [0]\<rparr>) = 1
   \<and> length (filter (\<lambda>(t, p). p > t) (zip [10::real] [0::real])) = 0
   \<and> overpredicted (calculate_winnings \<lparr>truths = [10, 10], preds = [7, 11]\<rparr>) = 1
   \<and> winnings (calculate_winnings \<lparr>truths = [10, 10], preds = [7, 11]\<rparr>) = 7
   \<and> winning_percent (calculate_winnings \<lparr>truths = [10, 10], preds = [7, 11]\<rparr>) = Fin (7 / 10)"
proof -
  have gen: "overpredicted (calculate_winnings \<lparr>truths = ts, preds = ps\<rparr>)
     = length (filter (\<lambda>(t, p). p > t \<or> p = 0) (zip ts ps))" for ts ps
    unfolding calculate_winnings_def Let_def
    by (simp only: scored.simps df_winnings_eq zero_winnings_rows)
  have a: "overpredicted (calculate_winnings \<lparr>truths = [10], preds = [0]\<rparr>) = 1"
    by (simp add: gen)
  have b: "length (filter (\<lambda>(t, p). p > t) (zip [10::real] [0::real])) = 0"
    by simp
  have c: "overpredicted (calculate_winnings \<lparr>truths = [10, 10], preds = [7, 11]\<rparr>) = 1"
    by (simp add: gen)
  have d: "winnings (calculate_winnings \<lparr>truths = [10, 10], preds = [7, 11]\<rparr>) = 7"
    by (simp add: calculate_winnings_def Let_def df_winnings_eq)
  have e: "winning_percent (calculate_winnings \<lparr>truths = [10, 10], preds = [7, 11]\<rparr>) = Fin (7 / 10)"
    by (simp add: calculate_winnings_def Let_def df_winning_percent_eq sum_skipna_def fdiv_def)
  from gen [of ts ps] a b c d e show ?thesis by blast
qed

text \<open>
  Claim C6, as stated: every pair's contribution to the total winnings is at least 0, and
  so is the total. It fails for a negative prediction below its truth: truths \<open>[10]\<close>,
  predictions \<open>[-5]\<close> give a contribution and a total of \<open>-5\<close>.
\<close>

theorem negative_prediction_negative_winnings:
  "df_winnings (winning_df \<lparr>truths = [10], preds = [- 5]\<rparr>) = [- 5]
   \<and> winnings (calculate_winnings \<lparr>truths = [10], preds = [- 5]\<rparr>) = - 5
   \<and> winnings (calculate_winnings \<lparr>truths = [10], preds = [- 5]\<rparr>) < 0"
  by (simp add: calculate_winnings_def Let_def df_winnings_eq)

text \<open>
  Claim C6, amended: when every prediction that does not exceed its truth is at least 0
  (in particular when no prediction is negative), every pair's contribution to the total
  winnings is at least 0, and so is the total.
\<close>

theorem winnings_nonneg:
  assumes "\<forall>(t, p) \<in> set (zip ts ps). p \<le> t \<longrightarrow> 0 \<le> p"
  shows "(\<forall>w \<in> set (df_winnings (winning_df \<lparr>truths = ts, preds = ps\<rparr>)). 0 \<le> w)
         \<and> 0 \<le> winnings (calculate_winnings \<lparr>truths = ts, preds = ps\<rparr>)"
proof -
  have rows: "\<forall>w \<in> set (df_winnings (winning_df \<lparr>truths = ts, preds = ps\<rparr>)). 0 \<le> w"
    unfolding df_winnings_eq by (rule nonneg_rows [OF assms])
  have "winnings (calculate_winnings \<lparr>truths = ts, preds = ps\<rparr>)
        = sum_list (df_winnings (winning_df \<lparr>truths = ts, preds = ps\<rparr>))"
    by (simp add: calculate_winnings_def Let_def)
  with rows show ?thesis by (simp add: sum_list_nonneg)
qed

theorem winnings_nonneg_witness:
  "0 \<le> winnings (calculate_winnings \<lparr>truths = [10, 10, 3], preds = [7, 11, 0]\<rparr>)"
  using winnings_nonneg [of "[10, 10, 3]" "[7, 11, 0]"] by simp

text \<open>
  Claim C8. When the prediction at an index \<open>i\<close> is strictly below its truth and is
  replaced by a value between the old prediction and the truth (both included), all other
  pairs unchanged, the total winnings do not decrease.
\<close>

theorem winnings_monotone_towards_truth:
  assumes "i < length ts" and "i < length ps"
    and "ps ! i < ts ! i" and "ps ! i \<le> p'" and "p' \<le> ts ! i"
  shows "winnings (calculate_winnings \<lparr>truths = ts, preds = ps\<rparr>)
         \<le> winnings (calculate_winnings \<lparr>truths = ts, preds = ps[i := p']\<rparr>)"
proof -
  have "winnings (calculate_winnings \<lparr>truths = ts, preds = ps[i := p']\<rparr>)
        = winnings (calculate_winnings \<lparr>truths = ts, preds = ps\<rparr>) + (p' - ps ! i)"
    unfolding calculate_winnings_def Let_def
    using sum_rows_update [OF assms(1,2,3,5)]
    by (simp only: scored.simps df_winnings_eq)
  with assms(4) show ?thesis by simp
qed

theorem winnings_monotone_towards_truth_witness:
  "(1::nat) < length [10, 10, 4::real] \<and> 1 < length [7, 6, 4::real]
   \<and> [7, 6, 4::real] ! 1 < [10, 10, 4::real] ! 1 \<and> [7, 6, 4::real] ! 1 \<le> 9
   \<and> (9::real) \<le> [10, 10, 4::real] ! 1
   \<and> winnings (calculate_winnings \<lparr>truths = [10, 10, 4], preds = [7, 6, 4]\<rparr>)
     \<le> winnings (calculate_winnings \<lparr>truths = [10, 10, 4], preds = [7, 6, 4][1 := 9]\<rparr>)
   \<and> winnings (calculate_winnings \<lparr>truths = [10, 10, 4], preds = [7, 6, 4]\<rparr>) = 17
   \<and> winnings (calculate_winnings \<lparr>truths = [10, 10, 4], preds = [7, 6, 4][1 := 9]\<rparr>) = 20"
proof -
  have w1: "winnings (calculate_winnings \<lparr>truths = [10, 10, 4], preds = [7, 6, 4]\<rparr>) = 17"
    by (simp add: calculate_winnings_def Let_def df_winnings_eq)
  have w2: "winnings (calculate_winnings \<lparr>truths = [10, 10, 4], preds = [7, 6, 4][1 := 9]\<rparr>) = 20"
    by (simp add: calculate_winnings_def Let_def df_winnings_eq)
  show ?thesis
    using winnings_monotone_towards_truth [of 1 "[10, 10, 4]" "[7, 6, 4]" 9] w1 w2 by simp
qed

section \<open>The loss functions\<close>

text \<open>
  Claim C3. On arrays of equal length the objective returns, for every pair with
  \<open>err = truth - pred\<close>: gradient \<open>-2 * P * err\<close> and curvature \<open>2 * P\<close> when
  \<open>err < 0\<close>; gradient \<open>-2 * err\<close> and curvature 2, whatever the penalty coefficient
  \<open>P\<close>, when \<open>err \<ge> 0\<close>. A pair with \<open>err = 0\<close> takes the second branch.
\<close>

theorem objective_gradient_curvature:
  assumes "length truth = length pred"
  shows "overprediction_penalty_objective P truth pred
         = Inr (map2 (\<lambda>t p. if t - p < 0 then - 2 * P * (t - p) else - 2 * (t - p)) truth pred,
                map2 (\<lambda>t p. if t - p < 0 then 2 * P else 2) truth pred)"
proof -
  have g: "map (\<lambda>e. if e < 0 then - 2 * P * e else - 2 * e) (map2 (\<lambda>x y. x - y) truth pred)
           = map2 (\<lambda>t p. if t - p < 0 then - 2 * P * (t - p) else - 2 * (t - p)) truth pred"
    by (simp add: case_prod_unfold)
  have h: "map (\<lambda>e. if e < 0 then 2 * P else 2) (map2 (\<lambda>x y. x - y) truth pred)
           = map2 (\<lambda>t p. if t - p < 0 then 2 * P else 2) truth pred"
    by (simp add: case_prod_unfold)
  show ?thesis
    using objective_of_err [OF np_sub_same [OF assms], of P] by (simp only: g h)
qed

theorem objective_gradient_curvature_witness:
  "length [10, 10, 10::real] = length [12, 8, 10::real]
   \<and> overprediction_penalty_objective 3 [10, 10, 10] [12, 8, 10] = Inr ([12, - 4, 0], [6, 2, 2])
   \<and> overprediction_penalty_objective 12 [10, 10, 10] [12, 8, 10] = Inr ([48, - 4, 0], [24, 2, 2])"
  using objective_gradient_curvature [of "[10, 10, 10]" "[12, 8, 10]" 3]
    objective_gradient_curvature [of "[10, 10, 10]" "[12, 8, 10]" 12]
  by simp

text \<open>
  Claim C4. On non-empty arrays of equal length the squared and the absolute evaluation
  functions each return the arithmetic mean over all pairs of the per-pair loss
  (\<open>err\<^sup>2 * P\<close>, respectively \<open>\<bar>err\<bar> * P\<close>, when \<open>err = truth - pred < 0\<close>;
  \<open>err\<^sup>2\<close>, respectively \<open>\<bar>err\<bar>\<close>, otherwise), together with a metric name and a
  higher-is-better flag that is false.
\<close>

theorem eval_mean_of_pair_losses:
  assumes "length truth = length pred" and "truth \<noteq> []"
  shows "overprediction_penalty_squared P truth pred
         = Inr (''overprediction_squared_penalty'',
                Fin (sum_list (map2 (\<lambda>t p. if t - p < 0 then (t - p)\<^sup>2 * P else (t - p)\<^sup>2)
                                 truth pred) / real (length truth)),
                False)
       \<and> overprediction_penalty_absolute P truth pred
         = Inr (''overprediction_squared_penalty'',
                Fin (sum_list (map2 (\<lambda>t p. if t - p < 0 then \<bar>t - p\<bar> * P else \<bar>t - p\<bar>)
                                 truth pred) / real (length truth)),
                False)"
proof -
  from assms have ne: "zip truth pred \<noteq> []" by (cases truth; cases pred) auto
  have len: "length (zip truth pred) = length truth" using assms by simp
  have sq: "np_mean (squared_loss P (map2 (\<lambda>x y. x - y) truth pred))
     = Fin (sum_list (map2 (\<lambda>t p. if t - p < 0 then (t - p)\<^sup>2 * P else (t - p)\<^sup>2)
                                 truth pred) / real (length truth))"
    unfolding squared_loss_eq using ne len by (simp add: np_mean_def)
  have ab: "np_mean (absolute_loss P (map2 (\<lambda>x y. x - y) truth pred))
     = Fin (sum_list (map2 (\<lambda>t p. if t - p < 0 then \<bar>t - p\<bar> * P else \<bar>t - p\<bar>)
                                 truth pred) / real (length truth))"
    unfolding absolute_loss_eq using ne len by (simp add: np_mean_def)
  show ?thesis
    unfolding overprediction_penalty_squared_def overprediction_penalty_absolute_def
    by (simp only: np_sub_same [OF assms(1)] sum.case sq ab)
qed

theorem eval_mean_of_pair_losses_witness:
  "length [10, 10, 10::real] = length [12, 8, 10::real] \<and> [10, 10, 10::real] \<noteq> []
   \<and> overprediction_penalty_squared 3 [10, 10, 10] [12, 8, 10]
       = Inr (''overprediction_squared_penalty'', Fin (16 / 3), False)
   \<and> overprediction_penalty_absolute 3 [10, 10, 10] [12, 8, 10]
       = Inr (''overprediction_squared_penalty'', Fin (8 / 3), False)"
  using eval_mean_of_pair_losses [of "[10, 10, 10]" "[12, 8, 10]" 3] by simp

text \<open>
  Claim C7. On non-empty arrays of equal length the winnings-approximation evaluation
  returns the arithmetic mean of the per-pair losses, where a pair's loss is \<open>- pred\<close>
  when \<open>err = truth - pred < 0\<close> and 0 otherwise, with the higher-is-better flag false.
  On truths \<open>[10]\<close> the value is \<open>-12\<close> for predictions \<open>[12]\<close> and 0 for
  predictions \<open>[8]\<close>.
\<close>

theorem custom_eval_mean:
  assumes "length truth = length pred" and "truth \<noteq> []"
  shows "overprediction_penalty_custom P truth pred
         = Inr (''custom_penalty'',
                Fin (sum_list (map2 (\<lambda>t p. if t - p < 0 then - p else 0) truth pred)
                     / real (length truth)),
                False)
       \<and> overprediction_penalty_custom P [10] [12] = Inr (''custom_penalty'', Fin (- 12), False)
       \<and> overprediction_penalty_custom P [10] [8] = Inr (''custom_penalty'', Fin 0, False)"
proof -
  have gen: "overprediction_penalty_custom P ts ps
         = Inr (''custom_penalty'',
                Fin (sum_list (map2 (\<lambda>t p. if t - p < 0 then - p else 0) ts ps)
                     / real (length ts)),
                False)" if l: "length ts = length ps" and n: "ts \<noteq> []" for ts ps
  proof -
    from l n have ne: "zip ts ps \<noteq> []" by (cases ts; cases ps) auto
    have len: "length (zip ts ps) = length ts" using l by simp
    have "np_mean (custom_loss (map2 (\<lambda>x y. x - y) ts ps) ps)
       = Fin (sum_list (map2 (\<lambda>t p. if t - p < 0 then - p else 0) ts ps) / real (length ts))"
      unfolding custom_loss_eq [OF l] using ne len by (simp add: np_mean_def)
    then show ?thesis
      unfolding overprediction_penalty_custom_def
      by (simp only: np_sub_same [OF l] sum.case)
  qed
  have a: "overprediction_penalty_custom P [10] [12] = Inr (''custom_penalty'', Fin (- 12), False)"
    using gen [of "[10]" "[12]"] by simp
  have b: "overprediction_penalty_custom P [10] [8] = Inr (''custom_penalty'', Fin 0, False)"
    using gen [of "[10]" "[8]"] by simp
  from gen [OF assms] a b show ?thesis by blast
qed

theorem custom_eval_mean_witness:
  "length [10, 10, 10::real] = length [12, 8, 14::real] \<and> [10, 10, 10::real] \<noteq> []
   \<and> overprediction_penalty_custom 3 [10, 10, 10] [12, 8, 14]
       = Inr (''custom_penalty'', Fin (- 26 / 3), False)"
  using custom_eval_mean [of "[10, 10, 10]" "[12, 8, 14]" 3] by simp

text \<open>
  Claim C9. For a pair with \<open>err = truth - pred < 0\<close> and penalty coefficients
  \<open>0 < P1 < P2\<close> (3 and 12 in the notebook), the cost of that pair strictly increases
  with the coefficient: its squared loss \<open>err\<^sup>2 * P\<close>, its absolute loss
  \<open>\<bar>err\<bar> * P\<close> and the magnitude of its gradient \<open>-2 * P * err\<close> are each strictly
  larger under \<open>P2\<close> than under \<open>P1\<close>. The means returned by the two evaluation
  functions on the whole sequence are then strictly larger as well.
\<close>

theorem penalty_strictly_increases_cost:
  assumes "0 < P1" and "P1 < P2"
    and "length truth = length pred" and "i < length truth" and "truth ! i - pred ! i < 0"
  shows "\<exists>err g1 h1 g2 h2 v1 v2 w1 w2.
      np_sub truth pred = Inr err \<and> err ! i = truth ! i - pred ! i
    \<and> squared_loss P1 err ! i = (err ! i)\<^sup>2 * P1 \<and> squared_loss P2 err ! i = (err ! i)\<^sup>2 * P2
    \<and> squared_loss P1 err ! i < squared_loss P2 err ! i
    \<and> absolute_loss P1 err ! i = \<bar>err ! i\<bar> * P1 \<and> absolute_loss P2 err ! i = \<bar>err ! i\<bar> * P2
    \<and> absolute_loss P1 err ! i < absolute_loss P2 err ! i
    \<and> overprediction_penalty_objective P1 truth pred = Inr (g1, h1)
    \<and> overprediction_penalty_objective P2 truth pred = Inr (g2, h2)
    \<and> g1 ! i = - 2 * P1 * err ! i \<and> g2 ! i = - 2 * P2 * err ! i
    \<and> \<bar>g1 ! i\<bar> < \<bar>g2 ! i\<bar>
    \<and> overprediction_penalty_squared P1 truth pred
        = Inr (''overprediction_squared_penalty'', Fin v1, False)
    \<and> overprediction_penalty_squared P2 truth pred
        = Inr (''overprediction_squared_penalty'', Fin v2, False)
    \<and> v1 < v2
    \<and> overprediction_penalty_absolute P1 truth pred
        = Inr (''overprediction_squared_penalty'', Fin w1, False)
    \<and> overprediction_penalty_absolute P2 truth pred
        = Inr (''overprediction_squared_penalty'', Fin w2, False)
    \<and> w1 < w2"
proof -
  define err where "err = map2 (\<lambda>x y. x - y) truth pred"
  have sub: "np_sub truth pred = Inr err"
    unfolding err_def by (rule np_sub_same [OF assms(3)])
  have len: "length err = length truth" and i: "i < length err"
    using assms(3,4) by (simp_all add: err_def)
  have ei: "err ! i = truth ! i - pred ! i"
    using assms(3,4) by (simp add: err_def)
  have neg: "err ! i < 0" using ei assms(5) by simp
  have ne: "err \<noteq> []" using i by (cases err) simp_all
  have n0: "0 < real (length err)" using ne by simp
  have s1: "squared_loss P err ! i = (err ! i)\<^sup>2 * P" for P
    using i neg by (simp add: squared_loss_map)
  have a1: "absolute_loss P err ! i = \<bar>err ! i\<bar> * P" for P
    using i neg by (simp add: absolute_loss_map)
  have g1: "map (\<lambda>e. if e < 0 then - 2 * P * e else - 2 * e) err ! i = - 2 * P * err ! i" for P
    using i neg by simp
  have ssum: "sum_list (squared_loss P1 err) < sum_list (squared_loss P2 err)"
    unfolding squared_loss_map
    using assms(2) i neg
    by (intro sum_list_map_less [of _ _ _ i]) (simp_all add: mult_left_mono mult_strict_left_mono)
  have asum: "sum_list (absolute_loss P1 err) < sum_list (absolute_loss P2 err)"
    unfolding absolute_loss_map
    using assms(2) i neg
    by (intro sum_list_map_less [of _ _ _ i]) (simp_all add: mult_left_mono mult_strict_left_mono)
  have lsq: "length (squared_loss P err) = length err" for P by (simp add: squared_loss_map)
  have lab: "length (absolute_loss P err) = length err" for P by (simp add: absolute_loss_map)
  have msq: "np_mean (squared_loss P err) = Fin (sum_list (squared_loss P err) / real (length err))" for P
    using ne lsq [of P] by (auto simp: np_mean_def)
  have mab: "np_mean (absolute_loss P err) = Fin (sum_list (absolute_loss P err) / real (length err))" for P
    using ne lab [of P] by (auto simp: np_mean_def)
  have sq: "overprediction_penalty_squared P truth pred
        = Inr (''overprediction_squared_penalty'',
               Fin (sum_list (squared_loss P err) / real (length err)), False)" for P
    unfolding overprediction_penalty_squared_def by (simp only: sub sum.case msq)
  have ab: "overprediction_penalty_absolute P truth pred
        = Inr (''overprediction_squared_penalty'',
               Fin (sum_list (absolute_loss P err) / real (length err)), False)" for P
    unfolding overprediction_penalty_absolute_def by (simp only: sub sum.case mab)
  have v: "sum_list (squared_loss P1 err) / real (length err)
           < sum_list (squared_loss P2 err) / real (length err)"
    using ssum n0 by (simp add: divide_strict_right_mono)
  have w: "sum_list (absolute_loss P1 err) / real (length err)
           < sum_list (absolute_loss P2 err) / real (length err)"
    using asum n0 by (simp add: divide_strict_right_mono)
  have sl: "squared_loss P1 err ! i < squared_loss P2 err ! i"
    unfolding s1 using squared_pair_strict [OF assms(2) neg] .
  have al: "absolute_loss P1 err ! i < absolute_loss P2 err ! i"
    unfolding a1 using absolute_pair_strict [OF assms(2) neg] .
  have gl: "\<bar>map (\<lambda>e. if e < 0 then - 2 * P1 * e else - 2 * e) err ! i\<bar>
            < \<bar>map (\<lambda>e. if e < 0 then - 2 * P2 * e else - 2 * e) err ! i\<bar>"
    unfolding g1 using gradient_pair_strict [OF assms(1,2) neg] .
  show ?thesis
    using sub ei s1 sl a1 al objective_of_err [OF sub] g1 gl sq v ab w by blast
qed

theorem penalty_strictly_increases_cost_witness:
  "(0::real) < 3 \<and> (3::real) < 12 \<and> length [10, 10::real] = length [8, 12::real]
   \<and> (1::nat) < length [10, 10::real] \<and> [10, 10::real] ! 1 - [8, 12] ! 1 < 0
   \<and> (\<exists>g1 h1 g2 h2 v1 v2 w1 w2.
        overprediction_penalty_objective 3 [10, 10] [8, 12] = Inr (g1, h1)
      \<and> overprediction_penalty_objective 12 [10, 10] [8, 12] = Inr (g2, h2)
      \<and> \<bar>g1 ! 1\<bar> < \<bar>g2 ! 1\<bar>
      \<and> overprediction_penalty_squared 3 [10, 10] [8, 12]
          = Inr (''overprediction_squared_penalty'', Fin v1, False)
      \<and> overprediction_penalty_squared 12 [10, 10] [8, 12]
          = Inr (''overprediction_squared_penalty'', Fin v2, False)
      \<and> v1 < v2
      \<and> overprediction_penalty_absolute 3 [10, 10] [8, 12]
          = Inr (''overprediction_squared_penalty'', Fin w1, False)
      \<and> overprediction_penalty_absolute 12 [10, 10] [8, 12]
          = Inr (''overprediction_squared_penalty'', Fin w2, False)
      \<and> w1 < w2)"
proof -
  have h: "(0::real) < 3" "(3::real) < 12" "length [10, 10::real] = length [8, 12::real]"
    "(1::nat) < length [10, 10::real]" "[10, 10::real] ! 1 - [8, 12] ! 1 < 0"
    by simp_all
  from penalty_strictly_increases_cost [OF h] h show ?thesis by blast
qed

text \<open>
  Claim C5, as stated: when the truths and the predictions differ in length, the loss
  functions and the scorer fail instead of returning a result. The scorer returns a result
  for two truths and one prediction (\<^verbatim>\<open>zip\<close> drops the unmatched truth), and each
  loss function returns a result for two truths and one prediction (numpy stretches the
  array of length one).
\<close>

theorem length_mismatch_returns_results:
  "length [10, 10::real] \<noteq> length [7::real]
   \<and> calculate_winnings \<lparr>truths = [10, 10], preds = [7]\<rparr>
       = \<lparr>truths = [10, 10], preds = [7], winnings = 7, winning_percent = Fin (7 / 10),
          overpredicted = 0\<rparr>
   \<and> length [10, 10::real] \<noteq> length [12::real]
   \<and> overprediction_penalty_objective 3 [10, 10] [12] = Inr ([12, 12], [6, 6])
   \<and> overprediction_penalty_squared 3 [10, 10] [12]
       = Inr (''overprediction_squared_penalty'', Fin 12, False)
   \<and> overprediction_penalty_absolute 3 [10, 10] [12]
       = Inr (''overprediction_squared_penalty'', Fin 6, False)
   \<and> overprediction_penalty_custom 3 [10, 10] [12] = Inr (''custom_penalty'', Fin (- 12), False)"
  by (simp add: calculate_winnings_def Let_def df_winnings_eq df_winning_percent_eq
      sum_skipna_def fdiv_def overprediction_penalty_objective_def
      overprediction_penalty_squared_def overprediction_penalty_absolute_def
      overprediction_penalty_custom_def np_sub_def broadcast_shapes_def broadcast_to_def
      np_where_def squared_loss_def absolute_loss_def custom_loss_def np_mean_def)

text \<open>
  Claim C5, amended: each of the four loss functions fails with \<^verbatim>\<open>ValueError\<close>, and
  returns no result, exactly when the two lengths differ and neither is one. An array of
  length one is stretched to the length of the other: the call returns what it returns on
  that array repeated to the other's length, which is the per-pair result against the
  single element. The scorer never fails on a length mismatch: it scores the pairs up to
  the shorter length, as if both sequences had been cut there.
\<close>

theorem length_mismatch_behaviour:
  "(overprediction_penalty_objective P truth pred = Inl ValueError
      \<longleftrightarrow> length truth \<noteq> length pred \<and> length truth \<noteq> 1 \<and> length pred \<noteq> 1)
   \<and> (overprediction_penalty_squared P truth pred = Inl ValueError
      \<longleftrightarrow> length truth \<noteq> length pred \<and> length truth \<noteq> 1 \<and> length pred \<noteq> 1)
   \<and> (overprediction_penalty_absolute P truth pred = Inl ValueError
      \<longleftrightarrow> length truth \<noteq> length pred \<and> length truth \<noteq> 1 \<and> length pred \<noteq> 1)
   \<and> (overprediction_penalty_custom P truth pred = Inl ValueError
      \<longleftrightarrow> length truth \<noteq> length pred \<and> length truth \<noteq> 1 \<and> length pred \<noteq> 1)
   \<and> overprediction_penalty_objective P truth [p]
       = overprediction_penalty_objective P truth (replicate (length truth) p)
   \<and> overprediction_penalty_squared P truth [p]
       = overprediction_penalty_squared P truth (replicate (length truth) p)
   \<and> overprediction_penalty_absolute P truth [p]
       = overprediction_penalty_absolute P truth (replicate (length truth) p)
   \<and> overprediction_penalty_custom P truth [p]
       = overprediction_penalty_custom P truth (replicate (length truth) p)
   \<and> overprediction_penalty_objective P [t] pred
       = overprediction_penalty_objective P (replicate (length pred) t) pred
   \<and> overprediction_penalty_squared P [t] pred
       = overprediction_penalty_squared P (replicate (length pred) t) pred
   \<and> overprediction_penalty_absolute P [t] pred
       = overprediction_penalty_absolute P (replicate (length pred) t) pred
   \<and> overprediction_penalty_custom P [t] pred
       = overprediction_penalty_custom P (replicate (length pred) t) pred
   \<and> overprediction_penalty_objective P truth [p]
       = Inr (map (\<lambda>t. if t - p < 0 then - 2 * P * (t - p) else - 2 * (t - p)) truth,
              map (\<lambda>t. if t - p < 0 then 2 * P else 2) truth)
   \<and> overprediction_penalty_squared P truth [p]
       = Inr (''overprediction_squared_penalty'',
              np_mean (map (\<lambda>t. if t - p < 0 then (t - p)\<^sup>2 * P else (t - p)\<^sup>2) truth), False)
   \<and> overprediction_penalty_absolute P truth [p]
       = Inr (''overprediction_squared_penalty'',
              np_mean (map (\<lambda>t. if t - p < 0 then \<bar>t - p\<bar> * P else \<bar>t - p\<bar>) truth), False)
   \<and> overprediction_penalty_custom P truth [p]
       = Inr (''custom_penalty'', np_mean (map (\<lambda>t. if t - p < 0 then - p else 0) truth), False)
   \<and> overprediction_penalty_objective P [t] pred
       = Inr (map (\<lambda>p. if t - p < 0 then - 2 * P * (t - p) else - 2 * (t - p)) pred,
              map (\<lambda>p. if t - p < 0 then 2 * P else 2) pred)
   \<and> overprediction_penalty_squared P [t] pred
       = Inr (''overprediction_squared_penalty'',
              np_mean (map (\<lambda>p. if t - p < 0 then (t - p)\<^sup>2 * P else (t - p)\<^sup>2) pred), False)
   \<and> overprediction_penalty_absolute P [t] pred
       = Inr (''overprediction_squared_penalty'',
              np_mean (map (\<lambda>p. if t - p < 0 then \<bar>t - p\<bar> * P else \<bar>t - p\<bar>) pred), False)
   \<and> overprediction_penalty_custom P [t] pred
       = Inr (''custom_penalty'', np_mean (map (\<lambda>p. if t - p < 0 then - p else 0) pred), False)
   \<and> winning_df \<lparr>truths = truth, preds = pred\<rparr>
       = winning_df \<lparr>truths = take (min (length truth) (length pred)) truth,
                     preds = take (min (length truth) (length pred)) pred\<rparr>
   \<and> winnings (calculate_winnings \<lparr>truths = truth, preds = pred\<rparr>)
       = winnings (calculate_winnings
           \<lparr>truths = take (min (length truth) (length pred)) truth,
            preds = take (min (length truth) (length pred)) pred\<rparr>)
   \<and> winning_percent (calculate_winnings \<lparr>truths = truth, preds = pred\<rparr>)
       = winning_percent (calculate_winnings
           \<lparr>truths = take (min (length truth) (length pred)) truth,
            preds = take (min (length truth) (length pred)) pred\<rparr>)
   \<and> overpredicted (calculate_winnings \<lparr>truths = truth, preds = pred\<rparr>)
       = overpredicted (calculate_winnings
           \<lparr>truths = take (min (length truth) (length pred)) truth,
            preds = take (min (length truth) (length pred)) pred\<rparr>)"
proof -
  let ?fails = "length truth \<noteq> length pred \<and> length truth \<noteq> 1 \<and> length pred \<noteq> 1"
  let ?n = "min (length truth) (length pred)"
  have f1: "overprediction_penalty_objective P truth pred = Inl ValueError \<longleftrightarrow> ?fails"
    unfolding objective_Inl_iff np_sub_Inl_iff ..
  have f2: "overprediction_penalty_squared P truth pred = Inl ValueError \<longleftrightarrow> ?fails"
    unfolding squared_Inl_iff np_sub_Inl_iff ..
  have f3: "overprediction_penalty_absolute P truth pred = Inl ValueError \<longleftrightarrow> ?fails"
    unfolding absolute_Inl_iff np_sub_Inl_iff ..
  have f4: "overprediction_penalty_custom P truth pred = Inl ValueError \<longleftrightarrow> ?fails"
    unfolding custom_Inl_iff np_sub_Inl_iff ..
  have mr: "map g (map (\<lambda>t. t - p) truth) = map (\<lambda>t. g (t - p)) truth" for g :: "real \<Rightarrow> 'b"
    by simp
  have ml: "map g (map (\<lambda>p. t - p) pred) = map (\<lambda>p. g (t - p)) pred" for g :: "real \<Rightarrow> 'b"
    by simp
  have r1: "overprediction_penalty_objective P truth [p]
       = Inr (map (\<lambda>t. if t - p < 0 then - 2 * P * (t - p) else - 2 * (t - p)) truth,
              map (\<lambda>t. if t - p < 0 then 2 * P else 2) truth)"
    using objective_of_err [OF np_sub_single_right, of P truth p] by (simp only: mr)
  have r1': "overprediction_penalty_objective P truth (replicate (length truth) p)
       = Inr (map (\<lambda>t. if t - p < 0 then - 2 * P * (t - p) else - 2 * (t - p)) truth,
              map (\<lambda>t. if t - p < 0 then 2 * P else 2) truth)"
    using objective_of_err [OF np_sub_replicate_right, of P truth p] by (simp only: mr)
  have r2: "overprediction_penalty_squared P truth [p]
       = Inr (''overprediction_squared_penalty'',
              np_mean (map (\<lambda>t. if t - p < 0 then (t - p)\<^sup>2 * P else (t - p)\<^sup>2) truth), False)"
    using squared_of_err [OF np_sub_single_right, of P truth p] by (simp only: mr)
  have r2': "overprediction_penalty_squared P truth (replicate (length truth) p)
       = Inr (''overprediction_squared_penalty'',
              np_mean (map (\<lambda>t. if t - p < 0 then (t - p)\<^sup>2 * P else (t - p)\<^sup>2) truth), False)"
    using squared_of_err [OF np_sub_replicate_right, of P truth p] by (simp only: mr)
  have r3: "overprediction_penalty_absolute P truth [p]
       = Inr (''overprediction_squared_penalty'',
              np_mean (map (\<lambda>t. if t - p < 0 then \<bar>t - p\<bar> * P else \<bar>t - p\<bar>) truth), False)"
    using absolute_of_err [OF np_sub_single_right, of P truth p] by (simp only: mr)
  have r3': "overprediction_penalty_absolute P truth (replicate (length truth) p)
       = Inr (''overprediction_squared_penalty'',
              np_mean (map (\<lambda>t. if t - p < 0 then \<bar>t - p\<bar> * P else \<bar>t - p\<bar>) truth), False)"
    using absolute_of_err [OF np_sub_replicate_right, of P truth p] by (simp only: mr)
  have r4: "overprediction_penalty_custom P truth [p]
       = Inr (''custom_penalty'', np_mean (map (\<lambda>t. if t - p < 0 then - p else 0) truth), False)"
    using custom_of_err [OF np_sub_single_right, of P truth p]
    by (simp only: custom_loss_single mr)
  have r4': "overprediction_penalty_custom P truth (replicate (length truth) p)
       = Inr (''custom_penalty'', np_mean (map (\<lambda>t. if t - p < 0 then - p else 0) truth), False)"
    using custom_of_err [OF np_sub_replicate_right, of P truth p]
    by (simp only: custom_loss_replicate mr)
  have l1: "overprediction_penalty_objective P [t] pred
       = Inr (map (\<lambda>p. if t - p < 0 then - 2 * P * (t - p) else - 2 * (t - p)) pred,
              map (\<lambda>p. if t - p < 0 then 2 * P else 2) pred)"
    using objective_of_err [OF np_sub_single_left, of P t pred] by (simp only: ml)
  have l1': "overprediction_penalty_objective P (replicate (length pred) t) pred
       = Inr (map (\<lambda>p. if t - p < 0 then - 2 * P * (t - p) else - 2 * (t - p)) pred,
              map (\<lambda>p. if t - p < 0 then 2 * P else 2) pred)"
    using objective_of_err [OF np_sub_replicate_left, of P pred t] by (simp only: ml)
  have l2: "overprediction_penalty_squared P [t] pred
       = Inr (''overprediction_squared_penalty'',
              np_mean (map (\<lambda>p. if t - p < 0 then (t - p)\<^sup>2 * P else (t - p)\<^sup>2) pred), False)"
    using squared_of_err [OF np_sub_single_left, of P t pred] by (simp only: ml)
  have l2': "overprediction_penalty_squared P (replicate (length pred) t) pred
       = Inr (''overprediction_squared_penalty'',
              np_mean (map (\<lambda>p. if t - p < 0 then (t - p)\<^sup>2 * P else (t - p)\<^sup>2) pred), False)"
    using squared_of_err [OF np_sub_replicate_left, of P pred t] by (simp only: ml)
  have l3: "overprediction_penalty_absolute P [t] pred
       = Inr (''overprediction_squared_penalty'',
              np_mean (map (\<lambda>p. if t - p < 0 then \<bar>t - p\<bar> * P else \<bar>t - p\<bar>) pred), False)"
    using absolute_of_err [OF np_sub_single_left, of P t pred] by (simp only: ml)
  have l3': "overprediction_penalty_absolute P (replicate (length pred) t) pred
       = Inr (''overprediction_squared_penalty'',
              np_mean (map (\<lambda>p. if t - p < 0 then \<bar>t - p\<bar> * P else \<bar>t - p\<bar>) pred), False)"
    using absolute_of_err [OF np_sub_replicate_left, of P pred t] by (simp only: ml)
  have l4: "overprediction_penalty_custom P [t] pred
       = Inr (''custom_penalty'', np_mean (map (\<lambda>p. if t - p < 0 then - p else 0) pred), False)"
    using custom_of_err [OF np_sub_single_left, of P t pred]
    by (simp only: custom_loss_same_length)
  have l4': "overprediction_penalty_custom P (replicate (length pred) t) pred
       = Inr (''custom_penalty'', np_mean (map (\<lambda>p. if t - p < 0 then - p else 0) pred), False)"
    using custom_of_err [OF np_sub_replicate_left, of P pred t]
    by (simp only: custom_loss_same_length)
  have s0: "winning_df \<lparr>truths = truth, preds = pred\<rparr>
       = winning_df \<lparr>truths = take ?n truth, preds = take ?n pred\<rparr>"
    by (simp only: winning_df_take)
  have s1: "winnings (calculate_winnings \<lparr>truths = truth, preds = pred\<rparr>)
       = winnings (calculate_winnings \<lparr>truths = take ?n truth, preds = take ?n pred\<rparr>)"
    unfolding calculate_winnings_def Let_def winning_df_take by simp
  have s2: "winning_percent (calculate_winnings \<lparr>truths = truth, preds = pred\<rparr>)
       = winning_percent (calculate_winnings \<lparr>truths = take ?n truth, preds = take ?n pred\<rparr>)"
    unfolding calculate_winnings_def Let_def winning_df_take by simp
  have s3: "overpredicted (calculate_winnings \<lparr>truths = truth, preds = pred\<rparr>)
       = overpredicted (calculate_winnings \<lparr>truths = take ?n truth, preds = take ?n pred\<rparr>)"
    unfolding calculate_winnings_def Let_def winning_df_take by simp
  show ?thesis
    by (intro conjI)
      (rule f1 f2 f3 f4 r1 r2 r3 r4 l1 l2 l3 l4 s0 s1 s2 s3
        trans [OF r1 r1' [symmetric]] trans [OF r2 r2' [symmetric]]
        trans [OF r3 r3' [symmetric]] trans [OF r4 r4' [symmetric]]
        trans [OF l1 l1' [symmetric]] trans [OF l2 l2' [symmetric]]
        trans [OF l3 l3' [symmetric]] trans [OF l4 l4' [symmetric]])+
qed

theorem length_mismatch_behaviour_witness:
  "length [10, 10, 10::real] \<noteq> length [7, 11::real]
   \<and> length [10, 10, 10::real] \<noteq> 1 \<and> length [7, 11::real] \<noteq> 1
   \<and> overprediction_penalty_objective 3 [10, 10, 10] [7, 11] = Inl ValueError
   \<and> overprediction_penalty_squared 3 [10, 10, 10] [7, 11] = Inl ValueError
   \<and> overprediction_penalty_absolute 3 [10, 10, 10] [7, 11] = Inl ValueError
   \<and> overprediction_penalty_custom 3 [10, 10, 10] [7, 11] = Inl ValueError
   \<and> winnings (calculate_winnings \<lparr>truths = [10, 10, 10], preds = [7, 11]\<rparr>)
       = winnings (calculate_winnings \<lparr>truths = [10, 10], preds = [7, 11]\<rparr>)
   \<and> overprediction_penalty_objective 3 [10, 8] [9] = Inr ([- 2, 6], [2, 6])
   \<and> overprediction_penalty_objective 3 [10, 8] [9]
       = overprediction_penalty_objective 3 [10, 8] [9, 9]
   \<and> overprediction_penalty_squared 3 [10, 8] [9]
       = Inr (''overprediction_squared_penalty'', Fin 2, False)
   \<and> overprediction_penalty_absolute 3 [10, 8] [9]
       = Inr (''overprediction_squared_penalty'', Fin 2, False)
   \<and> overprediction_penalty_custom 3 [10, 8] [9] = Inr (''custom_penalty'', Fin (- 9 / 2), False)
   \<and> overprediction_penalty_objective 3 [10] [12, 8] = Inr ([12, - 4], [6, 2])
   \<and> overprediction_penalty_objective 3 [10] [12, 8]
       = overprediction_penalty_objective 3 [10, 10] [12, 8]
   \<and> overprediction_penalty_squared 3 [10] [12, 8]
       = Inr (''overprediction_squared_penalty'', Fin 8, False)
   \<and> overprediction_penalty_absolute 3 [10] [12, 8]
       = Inr (''overprediction_squared_penalty'', Fin 4, False)
   \<and> overprediction_penalty_custom 3 [10] [12, 8] = Inr (''custom_penalty'', Fin (- 6), False)"
  using length_mismatch_behaviour
          [where P = 3 and truth = "[10, 10, 10]" and pred = "[7, 11]" and p = 0 and t = 0]
        length_mismatch_behaviour
          [where P = 3 and truth = "[10, 8]" and pred = "[12, 8]" and p = 9 and t = 10]
  by (simp add: np_mean_def overprediction_penalty_objective_def
      overprediction_penalty_squared_def overprediction_penalty_absolute_def
      overprediction_penalty_custom_def np_sub_def broadcast_shapes_def broadcast_to_def
      np_where_def squared_loss_def absolute_loss_def custom_loss_def)

text \<open>
  Claim C10. Whenever the absolute evaluation returns, its metric name is
  \<^verbatim>\<open>overprediction_squared_penalty\<close>, the name the squared evaluation returns; the
  winnings-approximation evaluation returns the different name \<^verbatim>\<open>custom_penalty\<close>.
  On arrays of equal length all three return.
\<close>

theorem eval_metric_names:
  "(\<forall>r. overprediction_penalty_absolute P truth pred = Inr r
        \<longrightarrow> fst r = ''overprediction_squared_penalty'')
   \<and> (\<forall>r. overprediction_penalty_squared P truth pred = Inr r
        \<longrightarrow> fst r = ''overprediction_squared_penalty'')
   \<and> (\<forall>r. overprediction_penalty_custom P truth pred = Inr r \<longrightarrow> fst r = ''custom_penalty'')
   \<and> ''custom_penalty'' \<noteq> ''overprediction_squared_penalty''
   \<and> (length truth = length pred \<longrightarrow>
        (\<exists>v. overprediction_penalty_absolute P truth pred
               = Inr (''overprediction_squared_penalty'', v, False))
      \<and> (\<exists>v. overprediction_penalty_squared P truth pred
               = Inr (''overprediction_squared_penalty'', v, False))
      \<and> (\<exists>v. overprediction_penalty_custom P truth pred = Inr (''custom_penalty'', v, False)))"
proof -
  have a: "\<forall>r. overprediction_penalty_absolute P truth pred = Inr r
        \<longrightarrow> fst r = ''overprediction_squared_penalty''"
    by (cases "np_sub truth pred") (auto simp: overprediction_penalty_absolute_def)
  have s: "\<forall>r. overprediction_penalty_squared P truth pred = Inr r
        \<longrightarrow> fst r = ''overprediction_squared_penalty''"
    by (cases "np_sub truth pred") (auto simp: overprediction_penalty_squared_def)
  have c: "\<forall>r. overprediction_penalty_custom P truth pred = Inr r \<longrightarrow> fst r = ''custom_penalty''"
    by (cases "np_sub truth pred") (auto simp: overprediction_penalty_custom_def)
  have d: "''custom_penalty'' \<noteq> ''overprediction_squared_penalty''" by simp
  have e: "(\<exists>v. overprediction_penalty_absolute P truth pred
               = Inr (''overprediction_squared_penalty'', v, False))
      \<and> (\<exists>v. overprediction_penalty_squared P truth pred
               = Inr (''overprediction_squared_penalty'', v, False))
      \<and> (\<exists>v. overprediction_penalty_custom P truth pred = Inr (''custom_penalty'', v, False))"
    if l: "length truth = length pred"
    unfolding overprediction_penalty_absolute_def overprediction_penalty_squared_def
      overprediction_penalty_custom_def
    by (simp only: np_sub_same [OF l] sum.case) blast
  from a s c d e show ?thesis by blast
qed

theorem eval_metric_names_witness:
  "length [10, 10::real] = length [7, 11::real]
   \<and> (\<exists>v. overprediction_penalty_absolute 3 [10, 10] [7, 11]
            = Inr (''overprediction_squared_penalty'', v, False))
   \<and> (\<exists>v. overprediction_penalty_squared 3 [10, 10] [7, 11]
            = Inr (''overprediction_squared_penalty'', v, False))
   \<and> (\<exists>v. overprediction_penalty_custom 3 [10, 10] [7, 11] = Inr (''custom_penalty'', v, False))"
  using eval_metric_names [of 3 "[10, 10]" "[7, 11]"] by simp

end
